theory Spec2Isabelle
  imports
    Complex_Main
    "HOL-Library.Char_ord"
    "HOL-Library.List_Lexorder"
    "HOL-Library.Product_Lexorder"
begin

section \<open>The holdings engine of PRS FinSight\<close>

text \<open>
  This theory embeds \<^verbatim>\<open>compute_holdings\<close> (app.py, lines 122-145) and
  \<^verbatim>\<open>price_snapshot\<close> (pricing.py, lines 17-31).

  Conventions of the embedding:
  \<^item> a data frame is the list of its rows, in row order; a column computed from other
    columns of the same row is a function of the row;
  \<^item> the columns \<^verbatim>\<open>units\<close>, \<^verbatim>\<open>price\<close>, \<^verbatim>\<open>fees\<close> and every price are
    real numbers: rounding of the machine floats is not modelled;
  \<^item> a missing value (\<^verbatim>\<open>None\<close>, \<^verbatim>\<open>NaN\<close>) is \<open>None\<close> of an option type;
  \<^item> strings are lists of characters ordered by character code, as Python orders them;
    \<^verbatim>\<open>str.upper\<close> is modelled on ASCII text, where it maps \<^verbatim>\<open>a-z\<close> to
    \<^verbatim>\<open>A-Z\<close> and leaves every other character alone;
  \<^item> an exception is a value \<open>Inl e\<close> of a sum type;
  \<^item> the market data service is a parameter: the outcome of the request made for the
    \<open>i\<close>-th element of the list given to \<^verbatim>\<open>price_snapshot\<close>, for the symbol found
    there. Nothing is assumed about it: two requests for one symbol may differ;
  \<^item> the calls of \<^verbatim>\<open>price_snapshot\<close> that \<^verbatim>\<open>compute_holdings\<close> makes are
    recorded, with their argument, next to the value it returns.
\<close>

subsection \<open>Rows of the frames\<close>

text \<open>A row of the table \<^verbatim>\<open>transactions\<close> (db.py, lines 32-44), as \<^verbatim>\<open>fetch_tx\<close>
  reads it; the column \<^verbatim>\<open>id\<close> is \<open>tx_id\<close> here.\<close>

record transaction =
  tx_id :: int
  user_id :: int
  date :: string
  symbol :: string
  asset_type :: string
  txn_type :: string
  units :: real
  price :: real
  fees :: real
  account :: string

text \<open>A row of the frame \<^verbatim>\<open>cost\<close> (app.py, line 135).\<close>

record cost_row =
  cost_symbol :: string
  cost_asset_type :: string
  total_units :: real
  total_cost :: real

text \<open>A row of the frame \<^verbatim>\<open>net\<close> once \<^verbatim>\<open>avg_cost\<close> and \<^verbatim>\<open>invested\<close> are set
  (app.py, lines 132-139), restricted to the columns that are read afterwards.\<close>

record net_row =
  net_symbol :: string
  net_asset_type :: string
  net_units :: real
  net_avg_cost :: real
  net_invested :: real

text \<open>A row of the frame that \<^verbatim>\<open>price_snapshot\<close> returns (pricing.py, line 28).\<close>

record snapshot =
  snap_symbol :: string
  snap_last :: "real option"
  snap_prev :: "real option"
  snap_chg :: "real option"
  snap_chg_pct :: "real option"

text \<open>A row of the frame that \<^verbatim>\<open>compute_holdings\<close> returns (app.py, line 145):
  a Position. \<open>None\<close> is an absent value.\<close>

record position =
  pos_symbol :: string
  pos_asset_type :: string
  pos_units :: real
  pos_avg_cost :: real
  pos_invested :: real
  pos_last :: "real option"
  pos_value :: "real option"
  pos_pnl :: "real option"
  pos_pnl_pct :: "real option"

datatype error = KeyError | IndexError | RequestError

subsection \<open>The price gateway: \<^verbatim>\<open>price_snapshot\<close>\<close>

text \<open>What one request \<^verbatim>\<open>yf.Ticker(s).history(...)["Close"]\<close> gives: an exception
  (unknown or delisted symbol, no network, no \<^verbatim>\<open>Close\<close> column), or the column of
  closing prices, where \<open>None\<close> is a \<^verbatim>\<open>NaN\<close> entry.\<close>

datatype fetch = Raises | Close "real option list"

type_synonym gateway = "nat \<Rightarrow> string \<Rightarrow> fetch"

text \<open>\<^verbatim>\<open>Series.dropna\<close>.\<close>

definition dropna :: "'a option list \<Rightarrow> 'a list" where
  "dropna col = concat (map (\<lambda>v. case v of None \<Rightarrow> [] | Some x \<Rightarrow> [x]) col)"

text \<open>\<^verbatim>\<open>Series.iloc[i]\<close> with Python's negative positions; out of range it raises.\<close>

definition iloc :: "'a list \<Rightarrow> int \<Rightarrow> error + 'a" where
  "iloc xs i =
     (let pos = (if i < 0 then i + int (length xs) else i)
      in if pos < 0 \<or> int (length xs) \<le> pos then Inl IndexError else Inr (xs ! nat pos))"

text \<open>The body of the \<^verbatim>\<open>try\<close> block (pricing.py, lines 21-28) for the symbol \<open>s\<close>.\<close>

definition snapshot_try :: "string \<Rightarrow> fetch \<Rightarrow> error + snapshot" where
  "snapshot_try s f =
     (case f of
        Raises \<Rightarrow> Inl RequestError
      | Close col \<Rightarrow>
          (let close = dropna col in
           case (if length close \<noteq> 0 then map_sum id Some (iloc close (- 1)) else Inr None) of
             Inl e \<Rightarrow> Inl e
           | Inr last_v \<Rightarrow>
               (case (if length close > 1 then map_sum id Some (iloc close (- 2)) else Inr None) of
                  Inl e \<Rightarrow> Inl e
                | Inr prev_v \<Rightarrow>
                    Inr \<lparr>snap_symbol = s, snap_last = last_v, snap_prev = prev_v,
                         snap_chg =
                           (case (last_v, prev_v) of
                              (Some l, Some p) \<Rightarrow> Some (l - p)
                            | _ \<Rightarrow> None),
                         snap_chg_pct =
                           (case (last_v, prev_v) of
                              (Some l, Some p) \<Rightarrow>
                                if p \<noteq> 0 then Some ((l / p - 1) * 100) else None
                            | _ \<Rightarrow> None)\<rparr>)))"

text \<open>The row appended by the \<^verbatim>\<open>except\<close> branch (pricing.py, line 30).\<close>

definition snapshot_none :: "string \<Rightarrow> snapshot" where
  "snapshot_none s =
     \<lparr>snap_symbol = s, snap_last = None, snap_prev = None, snap_chg = None,
      snap_chg_pct = None\<rparr>"

text \<open>One turn of the loop: \<^verbatim>\<open>try\<close> and \<^verbatim>\<open>except Exception\<close>.\<close>

definition snapshot_row :: "string \<Rightarrow> fetch \<Rightarrow> snapshot" where
  "snapshot_row s f = (case snapshot_try s f of Inl e \<Rightarrow> snapshot_none s | Inr r \<Rightarrow> r)"

text \<open>The loop over \<^verbatim>\<open>symbols\<close>, from position \<open>i\<close> on.\<close>

fun snapshot_loop :: "gateway \<Rightarrow> nat \<Rightarrow> string list \<Rightarrow> snapshot list" where
  "snapshot_loop gw i [] = []"
| "snapshot_loop gw i (s # symbols) = snapshot_row s (gw i s) # snapshot_loop gw (Suc i) symbols"

definition price_snapshot :: "gateway \<Rightarrow> string list \<Rightarrow> snapshot list" where
  "price_snapshot gw symbols = snapshot_loop gw 0 symbols"

subsection \<open>The engine: \<^verbatim>\<open>compute_holdings\<close>\<close>

text \<open>\<^verbatim>\<open>str.upper\<close> on ASCII text.\<close>

definition upper_char :: "char \<Rightarrow> char" where
  "upper_char c =
     (if CHR ''a'' \<le> c \<and> c \<le> CHR ''z'' then char_of (of_char c - (32::nat)) else c)"

definition upper :: "string \<Rightarrow> string" where
  "upper s = map upper_char s"

text \<open>Lines 126-127 on one row: the symbol in upper case, then \<^verbatim>\<open>SIP\<close> rewritten
  to \<^verbatim>\<open>BUY\<close>.\<close>

definition normalise :: "transaction \<Rightarrow> transaction" where
  "normalise t =
     (let t1 = t\<lparr>symbol := upper (symbol t)\<rparr>
      in if txn_type t1 = ''SIP'' then t1\<lparr>txn_type := ''BUY''\<rparr> else t1)"

text \<open>The column \<^verbatim>\<open>signed_units\<close> (line 128).\<close>

definition signed_units :: "transaction \<Rightarrow> real" where
  "signed_units t =
     (if txn_type t = ''SELL'' then - units t
      else if txn_type t = ''BUY'' then units t else 0)"

text \<open>The column \<^verbatim>\<open>cost\<close> of the frame \<^verbatim>\<open>buys\<close> (line 130).\<close>

definition cost_col :: "transaction \<Rightarrow> real" where
  "cost_col t = units t * price t + fees t"

text \<open>\<^verbatim>\<open>groupby(["symbol","asset_type"])\<close>: the distinct keys in ascending order, and
  the rows of one group.\<close>

definition key_of :: "transaction \<Rightarrow> string \<times> string" where
  "key_of t = (symbol t, asset_type t)"

definition group_keys :: "transaction list \<Rightarrow> (string \<times> string) list" where
  "group_keys rows = sort (remdups (map key_of rows))"

definition group_rows :: "transaction list \<Rightarrow> string \<times> string \<Rightarrow> transaction list" where
  "group_rows rows k = filter (\<lambda>t. key_of t = k) rows"

text \<open>A left merge: every left row, in order, with each right row of the same key in
  order, or with nothing when no right row has its key.\<close>

definition merge_left ::
  "('a \<Rightarrow> 'k) \<Rightarrow> ('b \<Rightarrow> 'k) \<Rightarrow> 'a list \<Rightarrow> 'b list \<Rightarrow> ('a \<times> 'b option) list" where
  "merge_left kl kr left right =
     concat (map (\<lambda>l. case filter (\<lambda>r. kr r = kl l) right of
                        [] \<Rightarrow> [(l, None)]
                      | ms \<Rightarrow> map (\<lambda>r. (l, Some r)) ms) left)"

text \<open>The frame \<^verbatim>\<open>net\<close> before the cost columns (lines 132 and 136): one row per
  group with the sum of its signed units.\<close>

definition net_units_frame :: "transaction list \<Rightarrow> ((string \<times> string) \<times> real) list" where
  "net_units_frame df =
     map (\<lambda>k. (k, sum_list (map signed_units (group_rows df k)))) (group_keys df)"

text \<open>The frame \<^verbatim>\<open>cost\<close> (line 135).\<close>

definition cost_frame :: "transaction list \<Rightarrow> cost_row list" where
  "cost_frame buys =
     map (\<lambda>k. \<lparr>cost_symbol = fst k, cost_asset_type = snd k,
               total_units = sum_list (map units (group_rows buys k)),
               total_cost = sum_list (map cost_col (group_rows buys k))\<rparr>) (group_keys buys)"

text \<open>Lines 132-133: no row is a \<^verbatim>\<open>BUY\<close>.\<close>

definition net_no_buys :: "transaction list \<Rightarrow> net_row list" where
  "net_no_buys df =
     map (\<lambda>(k, u). \<lparr>net_symbol = fst k, net_asset_type = snd k, net_units = u,
                    net_avg_cost = 0, net_invested = 0\<rparr>) (net_units_frame df)"

text \<open>Lines 135-139: the left merge with \<^verbatim>\<open>cost\<close>, \<^verbatim>\<open>fillna\<close>, and the guarded
  division.\<close>

definition net_with_buys :: "transaction list \<Rightarrow> transaction list \<Rightarrow> net_row list" where
  "net_with_buys df buys =
     map (\<lambda>((k, u), c).
            let tu = (case c of None \<Rightarrow> 0 | Some r \<Rightarrow> total_units r);
                tc = (case c of None \<Rightarrow> 0 | Some r \<Rightarrow> total_cost r)
            in \<lparr>net_symbol = fst k, net_asset_type = snd k, net_units = u,
                net_avg_cost = (if tu > 0 then tc / tu else 0),
                net_invested = tc\<rparr>)
         (merge_left fst (\<lambda>r. (cost_symbol r, cost_asset_type r))
            (net_units_frame df) (cost_frame buys))"

text \<open>Lines 129-139: the frame \<^verbatim>\<open>net\<close> from the normalised frame \<^verbatim>\<open>df\<close>.\<close>

definition net_frame :: "transaction list \<Rightarrow> net_row list" where
  "net_frame df =
     (let buys = filter (\<lambda>t. txn_type t = ''BUY'') df
      in if buys = [] then net_no_buys df else net_with_buys df buys)"

text \<open>\<^verbatim>\<open>snaps[["symbol","last"]]\<close> (line 141). A frame built from an empty list of
  rows has no columns, and selecting columns from it raises.\<close>

definition select_symbol_last :: "snapshot list \<Rightarrow> error + (string \<times> real option) list" where
  "select_symbol_last snaps =
     (if snaps = [] then Inl KeyError
      else Inr (map (\<lambda>r. (snap_symbol r, snap_last r)) snaps))"

text \<open>Lines 142-145 on one row of the merge of \<^verbatim>\<open>net\<close> with the prices: an
  unmatched row has no \<^verbatim>\<open>last\<close>; arithmetic with an absent value is absent.\<close>

definition valuation :: "net_row \<times> (string \<times> real option) option \<Rightarrow> position" where
  "valuation m =
     (let n = fst m;
          last_v = (case snd m of None \<Rightarrow> None | Some r \<Rightarrow> snd r)
      in \<lparr>pos_symbol = net_symbol n, pos_asset_type = net_asset_type n,
          pos_units = net_units n, pos_avg_cost = net_avg_cost n,
          pos_invested = net_invested n, pos_last = last_v,
          pos_value = map_option (\<lambda>l. net_units n * l) last_v,
          pos_pnl = map_option (\<lambda>l. (l - net_avg_cost n) * net_units n) last_v,
          pos_pnl_pct =
            (if net_avg_cost n > 0
             then map_option (\<lambda>l. (l / net_avg_cost n - 1) * 100) last_v else None)\<rparr>)"

text \<open>What one call of \<^verbatim>\<open>compute_holdings\<close> does: the arguments of its calls of
  \<^verbatim>\<open>price_snapshot\<close>, in order, and the frame it returns or the exception it raises.
  \<^verbatim>\<open>sort_values("symbol")\<close> is a sort by symbol that keeps rows of one symbol in
  their order; the statements below do not depend on the order of such rows.\<close>

record run =
  lookup_calls :: "string list list"
  returned :: "error + position list"

definition compute_holdings :: "gateway \<Rightarrow> transaction list \<Rightarrow> run" where
  "compute_holdings gw tx_df =
     (if tx_df = [] then \<lparr>lookup_calls = [], returned = Inr []\<rparr>
      else
        let df = map normalise tx_df;
            net = net_frame df;
            symbols = map net_symbol net;
            snaps = price_snapshot gw symbols
        in \<lparr>lookup_calls = [symbols],
            returned =
              (case select_symbol_last snaps of
                 Inl e \<Rightarrow> Inl e
               | Inr prices \<Rightarrow>
                   Inr (sort_key pos_symbol
                          (map valuation (merge_left net_symbol fst net prices))))\<rparr>)"

subsection \<open>Notions used in the statements\<close>

text \<open>The \<^verbatim>\<open>BUY\<close> rows of one group of the normalised frame.\<close>

definition buy_rows :: "transaction list \<Rightarrow> string \<times> string \<Rightarrow> transaction list" where
  "buy_rows df k = filter (\<lambda>t. txn_type t = ''BUY'') (group_rows df k)"

text \<open>The row of \<^verbatim>\<open>net\<close> for one key, written from the rows of its group.\<close>

definition net_row_of :: "transaction list \<Rightarrow> string \<times> string \<Rightarrow> net_row" where
  "net_row_of df k =
     \<lparr>net_symbol = fst k, net_asset_type = snd k,
      net_units = sum_list (map signed_units (group_rows df k)),
      net_avg_cost =
        (if sum_list (map units (buy_rows df k)) > 0
         then sum_list (map cost_col (buy_rows df k)) / sum_list (map units (buy_rows df k))
         else 0),
      net_invested = sum_list (map cost_col (buy_rows df k))\<rparr>"

text \<open>The prices that the merge of line 141 finds for a symbol, one for each row of the
  snapshot with that symbol.\<close>

definition prices_for :: "gateway \<Rightarrow> string list \<Rightarrow> string \<Rightarrow> real option list" where
  "prices_for gw symbols s =
     map snap_last (filter (\<lambda>r. snap_symbol r = s) (price_snapshot gw symbols))"

text \<open>The Position made of a row of \<^verbatim>\<open>net\<close> and a price.\<close>

definition position_of :: "net_row \<Rightarrow> real option \<Rightarrow> position" where
  "position_of n l = valuation (n, Some (net_symbol n, l))"

text \<open>The returned frame before the final sort.\<close>

definition merged_rows :: "gateway \<Rightarrow> net_row list \<Rightarrow> position list" where
  "merged_rows gw net =
     concat (map (\<lambda>n. map (position_of n) (prices_for gw (map net_symbol net) (net_symbol n)))
               net)"

text \<open>The key of a Position, and its columns that do not come from the prices.\<close>

definition pos_key :: "position \<Rightarrow> string \<times> string" where
  "pos_key p = (pos_symbol p, pos_asset_type p)"

definition cost_basis :: "position \<Rightarrow> string \<times> string \<times> real \<times> real \<times> real" where
  "cost_basis p = (pos_symbol p, pos_asset_type p, pos_units p, pos_avg_cost p, pos_invested p)"

text \<open>The sum of the units of the \<^verbatim>\<open>BUY\<close> and \<^verbatim>\<open>SIP\<close> transactions of a ledger
  for one key, read off the ledger as it is stored.\<close>

definition buy_units_sum :: "transaction list \<Rightarrow> string \<times> string \<Rightarrow> real" where
  "buy_units_sum tx_df k =
     sum_list (map units
       (filter (\<lambda>t. (txn_type t = ''BUY'' \<or> txn_type t = ''SIP'') \<and>
                     (upper (symbol t), asset_type t) = k) tx_df))"


text \<open>Example data: a ledger row of user 1, and a gateway that knows \<^verbatim>\<open>AAPL\<close> only.\<close>

definition ledger_row ::
  "string \<Rightarrow> string \<Rightarrow> string \<Rightarrow> real \<Rightarrow> real \<Rightarrow> real \<Rightarrow> transaction" where
  "ledger_row s a k u p f =
     \<lparr>tx_id = 0, user_id = 1, date = ''2024-01-01'', symbol = s, asset_type = a,
      txn_type = k, units = u, price = p, fees = f, account = ''Default''\<rparr>"

definition quotes :: gateway where
  "quotes i s = (if s = ''AAPL'' then Close [Some 110, None, Some 120] else Raises)"

section \<open>Properties of the frames\<close>

subsection \<open>Grouping\<close>

lemma set_group_keys: "set (group_keys rows) = key_of ` set rows"
  by (simp add: group_keys_def)

lemma distinct_group_keys: "distinct (group_keys rows)"
  by (simp add: group_keys_def)

lemma group_keys_eq_Nil: "group_keys rows = [] \<longleftrightarrow> rows = []"
proof -
  have "group_keys rows = [] \<longleftrightarrow> set (group_keys rows) = {}"
    by simp
  then show ?thesis
    by (simp add: set_group_keys)
qed

lemma group_keys_cong:
  assumes "key_of ` set xs = key_of ` set ys"
  shows "group_keys xs = group_keys ys"
proof -
  have "group_keys xs = sorted_list_of_set (set (map key_of xs))"
    unfolding group_keys_def by (simp only: sorted_list_of_set_sort_remdups)
  also have "\<dots> = sorted_list_of_set (set (map key_of ys))"
    using assms by simp
  also have "\<dots> = group_keys ys"
    unfolding group_keys_def by (simp only: sorted_list_of_set_sort_remdups)
  finally show ?thesis .
qed

lemma group_rows_filter: "group_rows (filter P df) k = filter P (group_rows df k)"
  by (auto simp: group_rows_def intro: filter_cong)

lemma group_rows_Nil: "k \<notin> set (group_keys rows) \<Longrightarrow> group_rows rows k = []"
  by (auto simp: set_group_keys group_rows_def filter_empty_conv)

lemma buy_rows_Nil: "filter (\<lambda>t. txn_type t = ''BUY'') df = [] \<Longrightarrow> buy_rows df k = []"
  unfolding buy_rows_def group_rows_def
  by (simp add: filter_empty_conv)

lemma sum_list_zero:
  assumes "\<And>x. x \<in> set xs \<Longrightarrow> f x = 0"
  shows "sum_list (map f xs) = (0::real)"
  using assms by (induction xs) simp_all

subsection \<open>The left merge\<close>

lemma filter_distinct_keys:
  assumes "distinct ks" and "\<And>j. f (g j) = j"
  shows "filter (\<lambda>r. f r = k) (map g ks) = (if k \<in> set ks then [g k] else [])"
  using assms(1)
proof (induction ks)
  case Nil
  then show ?case by simp
next
  case (Cons a ks)
  then show ?case
    by (auto simp: assms(2))
qed

lemma merge_left_distinct:
  assumes "distinct ks" and "\<And>j. kr (g j) = j"
  shows "merge_left kl kr left (map g ks) =
           map (\<lambda>l. (l, if kl l \<in> set ks then Some (g (kl l)) else None)) left"
proof (induction left)
  case Nil
  show ?case by (simp add: merge_left_def)
next
  case (Cons l left)
  have "merge_left kl kr (l # left) (map g ks) =
          (case filter (\<lambda>r. kr r = kl l) (map g ks) of
             [] \<Rightarrow> [(l, None)] | ms \<Rightarrow> map (\<lambda>r. (l, Some r)) ms)
          @ merge_left kl kr left (map g ks)"
    by (simp add: merge_left_def)
  moreover have "filter (\<lambda>r. kr r = kl l) (map g ks) =
      (if kl l \<in> set ks then [g (kl l)] else [])"
    using assms by (rule filter_distinct_keys [where f = kr and g = g])
  ultimately show ?case
    by (simp add: Cons.IH)
qed

lemma merge_prices:
  assumes "set (map kl left) \<subseteq> set (map fst prices)"
  shows "merge_left kl fst left prices =
           concat (map (\<lambda>l. map (\<lambda>r. (l, Some r)) (filter (\<lambda>r. fst r = kl l) prices)) left)"
  using assms
proof (induction left)
  case Nil
  show ?case by (simp add: merge_left_def)
next
  case (Cons l left)
  from Cons.prems have "filter (\<lambda>r. fst r = kl l) prices \<noteq> []"
    by (force simp: filter_empty_conv)
  then have "(case filter (\<lambda>r. fst r = kl l) prices of
                [] \<Rightarrow> [(l, None)] | ms \<Rightarrow> map (\<lambda>r. (l, Some r)) ms)
             = map (\<lambda>r. (l, Some r)) (filter (\<lambda>r. fst r = kl l) prices)"
    by (simp split: list.splits)
  moreover have "merge_left kl fst left prices =
           concat (map (\<lambda>l. map (\<lambda>r. (l, Some r)) (filter (\<lambda>r. fst r = kl l) prices)) left)"
    using Cons by simp
  ultimately show ?case
    by (simp add: merge_left_def)
qed

subsection \<open>The frame \<^verbatim>\<open>net\<close>\<close>

lemma net_no_buys_eq:
  assumes "filter (\<lambda>t. txn_type t = ''BUY'') df = []"
  shows "net_no_buys df = map (net_row_of df) (group_keys df)"
  by (simp add: net_no_buys_def net_units_frame_def net_row_of_def buy_rows_Nil [OF assms])

lemma net_with_buys_eq:
  "net_with_buys df (filter (\<lambda>t. txn_type t = ''BUY'') df) = map (net_row_of df) (group_keys df)"
proof -
  let ?buys = "filter (\<lambda>t. txn_type t = ''BUY'') df"
  have rows: "group_rows ?buys k = buy_rows df k" for k
    by (simp add: group_rows_filter buy_rows_def)
  have absent: "buy_rows df k = []" if "k \<notin> set (group_keys ?buys)" for k
    using group_rows_Nil [OF that] by (simp add: rows)
  show ?thesis
    unfolding net_with_buys_def cost_frame_def net_units_frame_def
    by (simp add: merge_left_distinct [OF distinct_group_keys] rows absent net_row_of_def Let_def)
qed

lemma net_frame_eq: "net_frame df = map (net_row_of df) (group_keys df)"
  by (simp add: net_frame_def Let_def net_no_buys_eq net_with_buys_eq)

lemma net_row_of_simps [simp]:
  "net_symbol (net_row_of df k) = fst k"
  "net_asset_type (net_row_of df k) = snd k"
  "net_units (net_row_of df k) = sum_list (map signed_units (group_rows df k))"
  "net_invested (net_row_of df k) = sum_list (map cost_col (buy_rows df k))"
  by (simp_all add: net_row_of_def)

lemma net_avg_cost_of:
  "net_avg_cost (net_row_of df k) =
     (if sum_list (map units (buy_rows df k)) > 0
      then sum_list (map cost_col (buy_rows df k)) / sum_list (map units (buy_rows df k))
      else 0)"
  by (simp add: net_row_of_def)

lemma net_symbols: "map net_symbol (map (net_row_of df) ks) = map fst ks"
  by (simp add: net_row_of_def comp_def)

lemma normalise_simps [simp]:
  "units (normalise t) = units t"
  "price (normalise t) = price t"
  "fees (normalise t) = fees t"
  "asset_type (normalise t) = asset_type t"
  "symbol (normalise t) = upper (symbol t)"
  "txn_type (normalise t) = (if txn_type t = ''SIP'' then ''BUY'' else txn_type t)"
  by (simp_all add: normalise_def Let_def)

lemma group_rows_normalise:
  "group_rows (map normalise tx_df) k =
     map normalise (filter (\<lambda>t. key_of (normalise t) = k) tx_df)"
  by (simp add: group_rows_def filter_map comp_def)

lemma buy_units_sum_eq:
  "sum_list (map units (buy_rows (map normalise tx_df) k)) = buy_units_sum tx_df k"
  by (induction tx_df)
     (auto simp: buy_rows_def group_rows_def buy_units_sum_def key_of_def)

subsection \<open>The price gateway\<close>

lemma snap_symbol_row: "snap_symbol (snapshot_row s f) = s"
  by (auto simp: snapshot_row_def snapshot_try_def snapshot_none_def Let_def
      split: sum.splits fetch.splits if_splits)

lemma snapshot_row_Raises: "snapshot_row s Raises = snapshot_none s"
  by (simp add: snapshot_row_def snapshot_try_def)

lemma symbols_snapshot_loop: "map snap_symbol (snapshot_loop gw i symbols) = symbols"
  by (induction symbols arbitrary: i) (simp_all add: snap_symbol_row)

lemma length_snapshot_loop: "length (snapshot_loop gw i symbols) = length symbols"
  by (induction symbols arbitrary: i) simp_all


lemma set_snapshot_loop:
  "r \<in> set (snapshot_loop gw i symbols) \<Longrightarrow>
     \<exists>j. r = snapshot_row (snap_symbol r) (gw j (snap_symbol r))"
proof (induction symbols arbitrary: i)
  case Nil
  then show ?case by simp
next
  case (Cons s symbols)
  then show ?case
    by (auto simp: snap_symbol_row)
qed

lemma symbols_price_snapshot: "map snap_symbol (price_snapshot gw symbols) = symbols"
  by (simp add: price_snapshot_def symbols_snapshot_loop)

lemma price_snapshot_Nil: "price_snapshot gw symbols = [] \<longleftrightarrow> symbols = []"
  using length_snapshot_loop [of gw 0 symbols] by (auto simp: price_snapshot_def)

lemma length_prices_for:
  "length (prices_for gw symbols s) = length (filter (\<lambda>x. x = s) symbols)"
proof -
  have "length (filter (\<lambda>r. snap_symbol r = s) (price_snapshot gw symbols)) =
        length (filter (\<lambda>x. x = s) (map snap_symbol (price_snapshot gw symbols)))"
    by (simp add: filter_map comp_def)
  then show ?thesis
    by (simp add: prices_for_def symbols_price_snapshot)
qed

lemma prices_for_nonempty: "s \<in> set symbols \<Longrightarrow> prices_for gw symbols s \<noteq> []"
proof -
  assume "s \<in> set symbols"
  then have "filter (\<lambda>x. x = s) symbols \<noteq> []"
    by (simp add: filter_empty_conv)
  then have "length (prices_for gw symbols s) \<noteq> 0"
    by (simp add: length_prices_for)
  then show ?thesis by auto
qed

subsection \<open>The returned frame\<close>

lemma valuation_Some: "valuation (n, Some (s, l)) = position_of n l"
  by (simp add: valuation_def position_of_def)

lemma position_of_simps [simp]:
  "pos_symbol (position_of n l) = net_symbol n"
  "pos_asset_type (position_of n l) = net_asset_type n"
  "pos_units (position_of n l) = net_units n"
  "pos_avg_cost (position_of n l) = net_avg_cost n"
  "pos_invested (position_of n l) = net_invested n"
  "pos_last (position_of n l) = l"
  "pos_value (position_of n l) = map_option (\<lambda>x. net_units n * x) l"
  "pos_pnl (position_of n l) = map_option (\<lambda>x. (x - net_avg_cost n) * net_units n) l"
  "pos_pnl_pct (position_of n l) =
     (if net_avg_cost n > 0 then map_option (\<lambda>x. (x / net_avg_cost n - 1) * 100) l else None)"
  by (simp_all add: position_of_def valuation_def)

lemma set_merged_rows:
  "p \<in> set (merged_rows gw net) \<longleftrightarrow>
     (\<exists>n\<in>set net. \<exists>l\<in>set (prices_for gw (map net_symbol net) (net_symbol n)).
         p = position_of n l)"
  by (auto simp: merged_rows_def)

text \<open>For a ledger that is not empty the selection of line 141 finds its columns, every
  row of \<^verbatim>\<open>net\<close> finds a row of the snapshot, and the frame is returned.\<close>

lemma returned_nonempty:
  assumes "tx_df \<noteq> []"
  shows "returned (compute_holdings gw tx_df) =
           Inr (sort_key pos_symbol (merged_rows gw (net_frame (map normalise tx_df))))"
proof -
  let ?net = "net_frame (map normalise tx_df)"
  let ?snaps = "price_snapshot gw (map net_symbol ?net)"
  let ?prices = "map (\<lambda>r. (snap_symbol r, snap_last r)) ?snaps"
  have "?net \<noteq> []"
    using assms by (simp add: net_frame_eq group_keys_eq_Nil)
  then have sel: "select_symbol_last ?snaps = Inr ?prices"
    by (simp add: select_symbol_last_def price_snapshot_Nil)
  have "map fst ?prices = map net_symbol ?net"
    using symbols_price_snapshot [of gw "map net_symbol ?net"] by (simp add: comp_def)
  then have "set (map net_symbol ?net) \<subseteq> set (map fst ?prices)"
    by simp
  then have "merge_left net_symbol fst ?net ?prices =
      concat (map (\<lambda>l. map (\<lambda>r. (l, Some r)) (filter (\<lambda>r. fst r = net_symbol l) ?prices)) ?net)"
    by (rule merge_prices)
  then have "map valuation (merge_left net_symbol fst ?net ?prices) = merged_rows gw ?net"
    by (simp add: merged_rows_def prices_for_def valuation_Some map_concat comp_def filter_map)
  with sel show ?thesis
    using assms by (simp add: compute_holdings_def Let_def)
qed

lemma returned_total: "\<exists>tbl. returned (compute_holdings gw tx_df) = Inr tbl"
proof (cases "tx_df = []")
  case True
  then show ?thesis by (simp add: compute_holdings_def)
next
  case False
  then show ?thesis by (simp add: returned_nonempty)
qed

lemma lookup_calls_nonempty:
  "tx_df \<noteq> [] \<Longrightarrow>
     lookup_calls (compute_holdings gw tx_df) = [map fst (group_keys (map normalise tx_df))]"
  by (simp add: compute_holdings_def Let_def net_frame_eq net_symbols del: map_map)

text \<open>The rows of the returned frame: every key of the grouping has a row, and every row
  is the row of \<^verbatim>\<open>net\<close> of its key with some price.\<close>

lemma returned_positions:
  assumes "tx_df \<noteq> []"
  shows "\<exists>tbl. returned (compute_holdings gw tx_df) = Inr tbl \<and>
    (\<forall>k\<in>set (group_keys (map normalise tx_df)). \<exists>p\<in>set tbl. pos_key p = k) \<and>
    (\<forall>p\<in>set tbl.
           pos_key p \<in> set (group_keys (map normalise tx_df)) \<and>
           (\<exists>l\<in>set (prices_for gw (map fst (group_keys (map normalise tx_df))) (pos_symbol p)).
              p = position_of (net_row_of (map normalise tx_df) (pos_key p)) l))"
proof -
  let ?df = "map normalise tx_df"
  let ?tbl = "sort_key pos_symbol (merged_rows gw (net_frame ?df))"
  have tbl: "returned (compute_holdings gw tx_df) = Inr ?tbl"
    using assms by (rule returned_nonempty)
  have rows: "p \<in> set ?tbl \<longleftrightarrow>
          (\<exists>k\<in>set (group_keys ?df).
             \<exists>l\<in>set (prices_for gw (map fst (group_keys ?df)) (fst k)).
               p = position_of (net_row_of ?df k) l)" for p
    by (simp add: set_merged_rows net_frame_eq net_symbols del: map_map)
  have "\<exists>p\<in>set ?tbl. pos_key p = k" if k: "k \<in> set (group_keys ?df)" for k
  proof -
    from k have "fst k \<in> set (map fst (group_keys ?df))"
      by simp
    then have "prices_for gw (map fst (group_keys ?df)) (fst k) \<noteq> []"
      by (rule prices_for_nonempty)
    then obtain l where "l \<in> set (prices_for gw (map fst (group_keys ?df)) (fst k))"
      by (cases "prices_for gw (map fst (group_keys ?df)) (fst k)") auto
    with k have "position_of (net_row_of ?df k) l \<in> set ?tbl"
      using rows by blast
    moreover have "pos_key (position_of (net_row_of ?df k) l) = k"
      by (simp add: pos_key_def)
    ultimately show ?thesis by blast
  qed
  moreover have "pos_key p \<in> set (group_keys ?df) \<and>
      (\<exists>l\<in>set (prices_for gw (map fst (group_keys ?df)) (pos_symbol p)).
         p = position_of (net_row_of ?df (pos_key p)) l)" if "p \<in> set ?tbl" for p
  proof -
    from that obtain k l where "k \<in> set (group_keys ?df)"
      and "l \<in> set (prices_for gw (map fst (group_keys ?df)) (fst k))"
      and "p = position_of (net_row_of ?df k) l"
      using rows by blast
    then show ?thesis
      by (auto simp: pos_key_def)
  qed
  ultimately show ?thesis
    using tbl by blast
qed

text \<open>The cost-basis columns of the returned frame are the same for every gateway.\<close>

lemma map_insort_key:
  assumes "\<And>x. k' (g x) = k x"
  shows "map g (insort_key k a xs) = insort_key k' (g a) (map g xs)"
  by (induction xs) (simp_all add: assms)

lemma map_sort_key:
  assumes "\<And>x. k' (g x) = k x"
  shows "map g (sort_key k xs) = sort_key k' (map g xs)"
proof (induction xs)
  case Nil
  show ?case by simp
next
  case (Cons a xs)
  have "map g (insort_key k a (sort_key k xs)) = insort_key k' (g a) (map g (sort_key k xs))"
    using assms by (rule map_insort_key [where k' = k' and g = g and k = k])
  with Cons show ?case by simp
qed

lemma cost_basis_merged_rows:
  "map cost_basis (merged_rows gw net) =
     concat (map (\<lambda>n. replicate (length (filter (\<lambda>x. x = net_symbol n) (map net_symbol net)))
                        (net_symbol n, net_asset_type n, net_units n, net_avg_cost n,
                         net_invested n)) net)"
proof -
  let ?syms = "map net_symbol net"
  have rep: "map cost_basis (map (position_of n) ls) =
          replicate (length ls)
            (net_symbol n, net_asset_type n, net_units n, net_avg_cost n, net_invested n)"
    for n ls
    by (induction ls) (simp_all add: cost_basis_def)
  have "map cost_basis (merged_rows gw net) =
          concat (map (\<lambda>n. map cost_basis (map (position_of n)
                                 (prices_for gw ?syms (net_symbol n)))) net)"
    unfolding merged_rows_def map_concat by (simp only: map_map comp_def)
  also have "\<dots> = concat (map (\<lambda>n. replicate (length (filter (\<lambda>x. x = net_symbol n) ?syms))
                        (net_symbol n, net_asset_type n, net_units n, net_avg_cost n,
                         net_invested n)) net)"
    by (simp only: rep length_prices_for)
  finally show ?thesis .
qed

lemma cost_basis_any_gateway:
  assumes "returned (compute_holdings gw tx_df) = Inr tbl"
    and "returned (compute_holdings gw' tx_df) = Inr tbl'"
  shows "map cost_basis tbl' = map cost_basis tbl"
proof (cases "tx_df = []")
  case True
  with assms show ?thesis by (simp add: compute_holdings_def)
next
  case False
  let ?net = "net_frame (map normalise tx_df)"
  have k: "fst (cost_basis p) = pos_symbol p" for p
    by (simp add: cost_basis_def)
  from False assms have "tbl = sort_key pos_symbol (merged_rows gw ?net)"
    and "tbl' = sort_key pos_symbol (merged_rows gw' ?net)"
    by (simp_all add: returned_nonempty)
  then show ?thesis
    by (simp only: map_sort_key [where k' = fst and g = cost_basis and k = pos_symbol, OF k]
          cost_basis_merged_rows)
qed

text \<open>Two ledgers with the same frame \<^verbatim>\<open>net\<close> give the same run.\<close>

lemma compute_holdings_cong:
  assumes "net_frame (map normalise xs) = net_frame (map normalise ys)"
    and "xs = [] \<longleftrightarrow> ys = []"
  shows "compute_holdings gw xs = compute_holdings gw ys"
  using assms by (simp add: compute_holdings_def Let_def cong: sum.case_cong)

lemma net_frame_zero_impact:
  assumes "txn_type t' \<noteq> ''BUY''" "txn_type t' \<noteq> ''SELL''"
    and "key_of t' \<in> key_of ` set df"
  shows "net_frame (df @ [t']) = net_frame df"
proof -
  have keys: "group_keys (df @ [t']) = group_keys df"
    using assms(3) by (intro group_keys_cong) auto
  have "net_row_of (df @ [t']) k = net_row_of df k" for k
    using assms(1,2)
    by (simp add: net_row_of_def buy_rows_def group_rows_def signed_units_def)
  then show ?thesis
    by (simp add: net_frame_eq keys)
qed


subsection \<open>The example data\<close>

lemma ledger_row_simps [simp]:
  "symbol (ledger_row s a k u p f) = s"
  "asset_type (ledger_row s a k u p f) = a"
  "txn_type (ledger_row s a k u p f) = k"
  "units (ledger_row s a k u p f) = u"
  "price (ledger_row s a k u p f) = p"
  "fees (ledger_row s a k u p f) = f"
  by (simp_all add: ledger_row_def)

lemma upper_examples:
  "upper ''aapl'' = ''AAPL''" "upper ''AAPL'' = ''AAPL''" "upper ''msft'' = ''MSFT''"
  "upper ''X'' = ''X''" "upper ''xyz'' = ''XYZ''"
  by code_simp+

section \<open>The claims\<close>

text \<open>
  Claim C1. For a ledger in which the transactions of one (symbol, asset type) key are a
  BUY of 10 units at price 100 with fees 5 followed by a SELL of 4 units at price 120,
  \<^verbatim>\<open>compute_holdings\<close> returns a frame with a Position for that key, and a Position of
  that key has net units 6, invested 1005 and average cost 100.5. The ledger may hold
  transactions of other keys as well.
\<close>

theorem buy_then_sell:
  assumes "filter (\<lambda>t. key_of (normalise t) = k) tx_df = [b, s]"
    and "txn_type b = ''BUY''" "units b = 10" "price b = 100" "fees b = 5"
    and "txn_type s = ''SELL''" "units s = 4" "price s = 120"
  shows "\<exists>tbl. returned (compute_holdings gw tx_df) = Inr tbl \<and>
           (\<exists>p\<in>set tbl. pos_key p = k) \<and>
           (\<forall>p\<in>set tbl. pos_key p = k \<longrightarrow>
              pos_units p = 6 \<and> pos_invested p = 1005 \<and> pos_avg_cost p = 100.5)"
proof -
  let ?df = "map normalise tx_df"
  from assms(1) have "b \<in> set (filter (\<lambda>t. key_of (normalise t) = k) tx_df)"
    by simp
  then have b: "b \<in> set tx_df" "key_of (normalise b) = k"
    by simp_all
  then have ne: "tx_df \<noteq> []" and k: "k \<in> set (group_keys ?df)"
    by (auto simp: set_group_keys)
  have rows: "group_rows ?df k = [normalise b, normalise s]"
    by (simp add: group_rows_normalise assms(1))
  have buys: "buy_rows ?df k = [normalise b]"
    by (simp add: buy_rows_def rows assms)
  have n: "net_units (net_row_of ?df k) = 6" "net_invested (net_row_of ?df k) = 1005"
    "net_avg_cost (net_row_of ?df k) = 100.5"
    by (simp_all add: net_avg_cost_of rows buys signed_units_def cost_col_def assms)
  from returned_positions [OF ne, of gw]
  obtain tbl where tbl: "returned (compute_holdings gw tx_df) = Inr tbl"
    and ex: "\<forall>k\<in>set (group_keys ?df). \<exists>p\<in>set tbl. pos_key p = k"
    and rows: "\<forall>p\<in>set tbl.
           pos_key p \<in> set (group_keys ?df) \<and>
           (\<exists>l\<in>set (prices_for gw (map fst (group_keys ?df)) (pos_symbol p)).
              p = position_of (net_row_of ?df (pos_key p)) l)"
    by (elim exE conjE)
  have "pos_units p = 6 \<and> pos_invested p = 1005 \<and> pos_avg_cost p = 100.5"
    if "p \<in> set tbl" "pos_key p = k" for p
  proof -
    from rows that obtain l where "p = position_of (net_row_of ?df k) l"
      by auto
    then show ?thesis using n by simp
  qed
  with tbl ex k show ?thesis by blast
qed

theorem buy_then_sell_witness:
  "filter (\<lambda>t. key_of (normalise t) = (''AAPL'', ''stock''))
     [ledger_row ''aapl'' ''stock'' ''BUY'' 10 100 5,
      ledger_row ''msft'' ''stock'' ''BUY'' 1 1 0,
      ledger_row ''AAPL'' ''stock'' ''SELL'' 4 120 0] =
     [ledger_row ''aapl'' ''stock'' ''BUY'' 10 100 5,
      ledger_row ''AAPL'' ''stock'' ''SELL'' 4 120 0] \<and>
   (\<exists>tbl. returned (compute_holdings quotes
            [ledger_row ''aapl'' ''stock'' ''BUY'' 10 100 5,
             ledger_row ''msft'' ''stock'' ''BUY'' 1 1 0,
             ledger_row ''AAPL'' ''stock'' ''SELL'' 4 120 0]) = Inr tbl \<and>
     (\<exists>p\<in>set tbl. pos_key p = (''AAPL'', ''stock'')) \<and>
     (\<forall>p\<in>set tbl. pos_key p = (''AAPL'', ''stock'') \<longrightarrow>
        pos_units p = 6 \<and> pos_invested p = 1005 \<and> pos_avg_cost p = 100.5))"
proof -
  let ?b = "ledger_row ''aapl'' ''stock'' ''BUY'' 10 100 5"
  let ?s = "ledger_row ''AAPL'' ''stock'' ''SELL'' 4 120 0"
  let ?m = "ledger_row ''msft'' ''stock'' ''BUY'' 1 1 0"
  have h: "filter (\<lambda>t. key_of (normalise t) = (''AAPL'', ''stock'')) [?b, ?m, ?s] = [?b, ?s]"
    by (simp add: key_of_def upper_examples)
  have "\<exists>tbl. returned (compute_holdings quotes [?b, ?m, ?s]) = Inr tbl \<and>
     (\<exists>p\<in>set tbl. pos_key p = (''AAPL'', ''stock'')) \<and>
     (\<forall>p\<in>set tbl. pos_key p = (''AAPL'', ''stock'') \<longrightarrow>
        pos_units p = 6 \<and> pos_invested p = 1005 \<and> pos_avg_cost p = 100.5)"
    using h by (rule buy_then_sell) simp_all
  with h show ?thesis by simp
qed

text \<open>
  Claim C2. \<^verbatim>\<open>compute_holdings\<close> never raises: for every ledger and every behaviour
  of the gateway it returns a frame of Positions. The division of the average cost is
  guarded: the average cost is 0 when the sum of the BUY units of the key is not positive.
  The division of the P/L percentage is guarded: it is absent when the average cost is not
  positive.
\<close>

theorem never_raises:
  "\<exists>tbl. returned (compute_holdings gw tx_df) = Inr tbl \<and>
     (\<forall>p\<in>set tbl.
        (buy_units_sum tx_df (pos_symbol p, pos_asset_type p) \<le> 0 \<longrightarrow> pos_avg_cost p = 0) \<and>
        (pos_avg_cost p \<le> 0 \<longrightarrow> pos_pnl_pct p = None))"
proof (cases "tx_df = []")
  case True
  then show ?thesis by (simp add: compute_holdings_def)
next
  case False
  let ?df = "map normalise tx_df"
  from returned_positions [OF False, of gw]
  obtain tbl where tbl: "returned (compute_holdings gw tx_df) = Inr tbl"
    and rows: "\<forall>p\<in>set tbl.
           pos_key p \<in> set (group_keys ?df) \<and>
           (\<exists>l\<in>set (prices_for gw (map fst (group_keys ?df)) (pos_symbol p)).
              p = position_of (net_row_of ?df (pos_key p)) l)"
    by (elim exE conjE)
  have "(buy_units_sum tx_df (pos_symbol p, pos_asset_type p) \<le> 0 \<longrightarrow> pos_avg_cost p = 0) \<and>
        (pos_avg_cost p \<le> 0 \<longrightarrow> pos_pnl_pct p = None)" if "p \<in> set tbl" for p
  proof -
    from rows that obtain l where p: "p = position_of (net_row_of ?df (pos_key p)) l"
      by blast
    have "pos_avg_cost p \<le> 0 \<longrightarrow> pos_pnl_pct p = None"
      by (subst p, subst (2) p) simp
    moreover have "pos_avg_cost p = net_avg_cost (net_row_of ?df (pos_key p))"
      by (subst p) simp
    then have "buy_units_sum tx_df (pos_key p) \<le> 0 \<longrightarrow> pos_avg_cost p = 0"
      by (simp add: net_avg_cost_of buy_units_sum_eq)
    ultimately show ?thesis
      by (simp add: pos_key_def)
  qed
  with tbl show ?thesis by blast
qed

theorem never_raises_witness:
  "\<exists>tbl. returned (compute_holdings quotes [ledger_row ''aapl'' ''stock'' ''SELL'' 4 120 0])
           = Inr tbl \<and> tbl \<noteq> [] \<and>
     (\<forall>p\<in>set tbl.
        buy_units_sum [ledger_row ''aapl'' ''stock'' ''SELL'' 4 120 0]
          (pos_symbol p, pos_asset_type p) \<le> 0 \<and>
        pos_avg_cost p = 0 \<and> pos_pnl_pct p = None)"
proof -
  let ?l = "[ledger_row ''aapl'' ''stock'' ''SELL'' 4 120 0]"
  have run: "returned (compute_holdings quotes ?l) =
      Inr [\<lparr>pos_symbol = ''AAPL'', pos_asset_type = ''stock'', pos_units = - 4,
            pos_avg_cost = 0, pos_invested = 0, pos_last = Some 120,
            pos_value = Some (- 480), pos_pnl = Some (- 480), pos_pnl_pct = None\<rparr>]"
    by code_simp
  have hyp: "buy_units_sum ?l (''AAPL'', ''stock'') \<le> 0"
    by code_simp
  from never_raises [of quotes ?l] run hyp show ?thesis
    by simp
qed

text \<open>
  Claim C3. When the gateway has no price for a symbol (every request for it ends with an
  absent \<^verbatim>\<open>last\<close>), every Position of that symbol has \<^verbatim>\<open>last\<close>, \<^verbatim>\<open>value\<close>,
  \<^verbatim>\<open>pnl\<close> and \<^verbatim>\<open>pnl_pct\<close> absent; and the columns symbol, asset type, units,
  average cost and invested of the returned frame are the same as with any other
  behaviour of the gateway.
\<close>

theorem missing_price:
  assumes "\<forall>i. snap_last (snapshot_row s (gw i s)) = None"
  shows "\<exists>tbl. returned (compute_holdings gw tx_df) = Inr tbl \<and>
           (\<forall>p\<in>set tbl. pos_symbol p = s \<longrightarrow>
              pos_last p = None \<and> pos_value p = None \<and> pos_pnl p = None \<and>
              pos_pnl_pct p = None) \<and>
           (\<forall>gw'. \<exists>tbl'. returned (compute_holdings gw' tx_df) = Inr tbl' \<and>
              map cost_basis tbl' = map cost_basis tbl)"
proof (cases "tx_df = []")
  case True
  then show ?thesis by (simp add: compute_holdings_def)
next
  case False
  let ?df = "map normalise tx_df"
  from returned_positions [OF False, of gw]
  obtain tbl where tbl: "returned (compute_holdings gw tx_df) = Inr tbl"
    and rows: "\<forall>p\<in>set tbl.
           pos_key p \<in> set (group_keys ?df) \<and>
           (\<exists>l\<in>set (prices_for gw (map fst (group_keys ?df)) (pos_symbol p)).
              p = position_of (net_row_of ?df (pos_key p)) l)"
    by (elim exE conjE)
  have none: "l = None" if "l \<in> set (prices_for gw symbols s)" for l symbols
  proof -
    from that obtain r where r: "r \<in> set (price_snapshot gw symbols)" "snap_symbol r = s"
      "l = snap_last r"
      by (auto simp: prices_for_def)
    from r(1) obtain j where "r = snapshot_row (snap_symbol r) (gw j (snap_symbol r))"
      unfolding price_snapshot_def by (blast dest: set_snapshot_loop)
    with r(2,3) have "l = snap_last (snapshot_row s (gw j s))"
      by simp
    with assms show ?thesis
      by simp
  qed
  have "pos_last p = None \<and> pos_value p = None \<and> pos_pnl p = None \<and> pos_pnl_pct p = None"
    if "p \<in> set tbl" "pos_symbol p = s" for p
  proof -
    from rows that obtain l
      where l: "l \<in> set (prices_for gw (map fst (group_keys ?df)) s)"
      and p: "p = position_of (net_row_of ?df (pos_key p)) l"
      by blast
    from l have "l = None" by (rule none)
    with p have "p = position_of (net_row_of ?df (pos_key p)) None"
      by simp
    then have "pos_last p = pos_last (position_of (net_row_of ?df (pos_key p)) None)"
      and "pos_value p = pos_value (position_of (net_row_of ?df (pos_key p)) None)"
      and "pos_pnl p = pos_pnl (position_of (net_row_of ?df (pos_key p)) None)"
      and "pos_pnl_pct p = pos_pnl_pct (position_of (net_row_of ?df (pos_key p)) None)"
      by simp_all
    then show ?thesis
      by (simp only: position_of_simps option.map if_cancel simp_thms)
  qed
  moreover have "\<exists>tbl'. returned (compute_holdings gw' tx_df) = Inr tbl' \<and>
              map cost_basis tbl' = map cost_basis tbl" for gw'
    using returned_total [of gw' tx_df] cost_basis_any_gateway [OF tbl] by blast
  ultimately show ?thesis
    using tbl by blast
qed

theorem missing_price_witness:
  "(\<forall>i. snap_last (snapshot_row ''MSFT'' (quotes i ''MSFT'')) = None) \<and>
   (\<exists>tbl. returned (compute_holdings quotes
             [ledger_row ''msft'' ''stock'' ''BUY'' 2 50 1,
              ledger_row ''aapl'' ''stock'' ''BUY'' 1 100 0]) = Inr tbl \<and>
      (\<exists>p\<in>set tbl. pos_symbol p = ''MSFT'' \<and> pos_units p = 2 \<and> pos_invested p = 101) \<and>
      (\<forall>p\<in>set tbl. pos_symbol p = ''MSFT'' \<longrightarrow>
         pos_last p = None \<and> pos_value p = None \<and> pos_pnl p = None \<and> pos_pnl_pct p = None))"
proof -
  let ?l = "[ledger_row ''msft'' ''stock'' ''BUY'' 2 50 1,
             ledger_row ''aapl'' ''stock'' ''BUY'' 1 100 0]"
  have h: "\<forall>i. snap_last (snapshot_row ''MSFT'' (quotes i ''MSFT'')) = None"
    by (simp add: quotes_def snapshot_row_Raises snapshot_none_def)
  have run: "map (\<lambda>p. (pos_symbol p, pos_units p, pos_invested p))
               (case returned (compute_holdings quotes ?l) of Inl e \<Rightarrow> [] | Inr tbl \<Rightarrow> tbl) =
             [(''AAPL'', 1, 100), (''MSFT'', 2, 101)]"
    by code_simp
  from missing_price [where s = "''MSFT''" and gw = quotes and tx_df = ?l, OF h] obtain tbl
    where tbl: "returned (compute_holdings quotes ?l) = Inr tbl"
    and absent: "\<forall>p\<in>set tbl. pos_symbol p = ''MSFT'' \<longrightarrow>
         pos_last p = None \<and> pos_value p = None \<and> pos_pnl p = None \<and> pos_pnl_pct p = None"
    by blast
  from run tbl have "(''MSFT'', 2, 101) \<in> set (map (\<lambda>p. (pos_symbol p, pos_units p, pos_invested p)) tbl)"
    by simp
  then have "\<exists>p\<in>set tbl. pos_symbol p = ''MSFT'' \<and> pos_units p = 2 \<and> pos_invested p = 101"
    by auto
  with h tbl absent show ?thesis
    by blast
qed

text \<open>
  Claim C4. Positions are keyed by the pair of the symbol in upper case and the asset
  type, one Position for each pair. On the ledger below, where one symbol is held under
  two asset types, the returned frame has each of the two Positions twice: the snapshot
  has one row for each row of \<^verbatim>\<open>net\<close>, so two rows for the symbol, and the merge of
  line 141 pairs every row of \<^verbatim>\<open>net\<close> with both.
\<close>

theorem two_asset_types_duplicate_rows:
  "\<exists>tbl. returned (compute_holdings gw
            [ledger_row ''X'' ''stock'' ''BUY'' 1 1 0,
             ledger_row ''X'' ''etf'' ''BUY'' 1 1 0]) = Inr tbl \<and>
     map pos_key tbl =
       [(''X'', ''etf''), (''X'', ''etf''), (''X'', ''stock''), (''X'', ''stock'')]"
proof -
  let ?l = "[ledger_row ''X'' ''stock'' ''BUY'' 1 1 0, ledger_row ''X'' ''etf'' ''BUY'' 1 1 0]"
  obtain tbl where tbl: "returned (compute_holdings gw ?l) = Inr tbl"
    using returned_total [of gw ?l] by blast
  obtain tbl0 where tbl0: "returned (compute_holdings quotes ?l) = Inr tbl0"
    using returned_total [of quotes ?l] by blast
  have "map cost_basis (case returned (compute_holdings quotes ?l) of
                          Inl e \<Rightarrow> [] | Inr t \<Rightarrow> t) =
          [(''X'', ''etf'', 1, 1, 1), (''X'', ''etf'', 1, 1, 1),
           (''X'', ''stock'', 1, 1, 1), (''X'', ''stock'', 1, 1, 1)]"
    by code_simp
  with tbl0 have "map cost_basis tbl0 =
          [(''X'', ''etf'', 1, 1, 1), (''X'', ''etf'', 1, 1, 1),
           (''X'', ''stock'', 1, 1, 1), (''X'', ''stock'', 1, 1, 1)]"
    by simp
  with cost_basis_any_gateway [OF tbl0 tbl] have "map cost_basis tbl =
          [(''X'', ''etf'', 1, 1, 1), (''X'', ''etf'', 1, 1, 1),
           (''X'', ''stock'', 1, 1, 1), (''X'', ''stock'', 1, 1, 1)]"
    by simp
  then have "map (\<lambda>c. (fst c, fst (snd c))) (map cost_basis tbl) =
          [(''X'', ''etf''), (''X'', ''etf''), (''X'', ''stock''), (''X'', ''stock'')]"
    by simp
  moreover have "map (\<lambda>c. (fst c, fst (snd c))) (map cost_basis tbl) = map pos_key tbl"
    by (simp add: cost_basis_def pos_key_def comp_def)
  ultimately show ?thesis
    using tbl by simp
qed

text \<open>
  Claim C5. On a ledger that is not empty \<^verbatim>\<open>compute_holdings\<close> calls the price lookup
  once, with the distinct symbols of the grouping. On the ledger below, where one symbol
  is held under two asset types, the one call is made with that symbol twice: the argument
  is the symbol column of \<^verbatim>\<open>net\<close>, which has one entry for each pair of symbol and
  asset type.
\<close>

theorem two_asset_types_repeated_symbol:
  "lookup_calls (compute_holdings gw
     [ledger_row ''X'' ''stock'' ''BUY'' 1 1 0,
      ledger_row ''X'' ''etf'' ''BUY'' 1 1 0]) = [[''X'', ''X'']]"
proof -
  let ?l = "[ledger_row ''X'' ''stock'' ''BUY'' 1 1 0, ledger_row ''X'' ''etf'' ''BUY'' 1 1 0]"
  have "map fst (group_keys (map normalise ?l)) = [''X'', ''X'']"
    by code_simp
  then show ?thesis
    by (simp add: lookup_calls_nonempty)
qed



text \<open>
  Claim C7. A \<^verbatim>\<open>DIV\<close> transaction, or one whose kind is none of \<^verbatim>\<open>BUY\<close>,
  \<^verbatim>\<open>SELL\<close>, \<^verbatim>\<open>DIV\<close>, \<^verbatim>\<open>SIP\<close>, contributes no units and no cost: appending it to
  a ledger that already has its key changes nothing in what \<^verbatim>\<open>compute_holdings\<close>
  does, whatever its units, price and fees; and with any other behaviour of the gateway
  the columns symbol, asset type, units, average cost and invested are still the same.
\<close>

theorem zero_impact_kinds:
  assumes "txn_type t \<notin> {''BUY'', ''SELL'', ''SIP''}"
    and "key_of (normalise t) \<in> key_of ` normalise ` set tx_df"
  shows "compute_holdings gw (tx_df @ [t]) = compute_holdings gw tx_df \<and>
         (\<forall>gw'. \<exists>tbl tbl'.
            returned (compute_holdings gw tx_df) = Inr tbl \<and>
            returned (compute_holdings gw' (tx_df @ [t])) = Inr tbl' \<and>
            map cost_basis tbl' = map cost_basis tbl)"
proof -
  from assms(1) have "txn_type (normalise t) \<noteq> ''BUY''" "txn_type (normalise t) \<noteq> ''SELL''"
    by (simp_all add: normalise_def Let_def)
  with assms(2) have "net_frame (map normalise tx_df @ [normalise t]) =
      net_frame (map normalise tx_df)"
    by (intro net_frame_zero_impact) simp_all
  moreover from assms(2) have "tx_df \<noteq> []"
    by auto
  ultimately have same: "compute_holdings g (tx_df @ [t]) = compute_holdings g tx_df" for g
    by (intro compute_holdings_cong) simp_all
  have "\<exists>tbl tbl'.
            returned (compute_holdings gw tx_df) = Inr tbl \<and>
            returned (compute_holdings gw' (tx_df @ [t])) = Inr tbl' \<and>
            map cost_basis tbl' = map cost_basis tbl" for gw'
  proof -
    obtain tbl where tbl: "returned (compute_holdings gw tx_df) = Inr tbl"
      using returned_total [of gw tx_df] by blast
    obtain tbl' where tbl': "returned (compute_holdings gw' tx_df) = Inr tbl'"
      using returned_total [of gw' tx_df] by blast
    from tbl tbl' have "map cost_basis tbl' = map cost_basis tbl"
      by (rule cost_basis_any_gateway)
    with tbl tbl' show ?thesis
      by (simp add: same)
  qed
  with same show ?thesis by blast
qed

theorem zero_impact_kinds_witness:
  "txn_type (ledger_row ''aapl'' ''stock'' ''DIV'' 7 9 3) \<notin> {''BUY'', ''SELL'', ''SIP''} \<and>
   key_of (normalise (ledger_row ''aapl'' ''stock'' ''DIV'' 7 9 3)) \<in>
     key_of ` normalise ` set [ledger_row ''AAPL'' ''stock'' ''BUY'' 10 100 5] \<and>
   compute_holdings quotes
     ([ledger_row ''AAPL'' ''stock'' ''BUY'' 10 100 5] @
      [ledger_row ''aapl'' ''stock'' ''DIV'' 7 9 3]) =
   compute_holdings quotes [ledger_row ''AAPL'' ''stock'' ''BUY'' 10 100 5]"
proof -
  have h1: "txn_type (ledger_row ''aapl'' ''stock'' ''DIV'' 7 9 3) \<notin> {''BUY'', ''SELL'', ''SIP''}"
    by simp
  have h2: "key_of (normalise (ledger_row ''aapl'' ''stock'' ''DIV'' 7 9 3)) \<in>
     key_of ` normalise ` set [ledger_row ''AAPL'' ''stock'' ''BUY'' 10 100 5]"
    by (simp add: key_of_def upper_examples)
  from zero_impact_kinds [OF h1 h2, of quotes] h1 h2 show ?thesis
    by blast
qed



text \<open>
  Claim C9. For the empty ledger \<^verbatim>\<open>compute_holdings\<close> returns the empty frame of
  Positions; it raises nothing and does not call the price lookup.
\<close>

theorem holdings_empty:
  "compute_holdings gw [] = \<lparr>lookup_calls = [], returned = Inr []\<rparr>"
  by (simp add: compute_holdings_def)

text \<open>
  Claim C10. A key of the ledger whose transactions are all \<^verbatim>\<open>DIV\<close> or of kinds that
  are not recognised still has a Position in the returned frame, and a Position of that
  key has units 0, average cost 0 and invested 0.
\<close>

theorem zero_impact_rows:
  assumes "k \<in> key_of ` normalise ` set tx_df"
    and "\<forall>t\<in>set tx_df. key_of (normalise t) = k \<longrightarrow>
           txn_type t \<notin> {''BUY'', ''SELL'', ''SIP''}"
  shows "\<exists>tbl. returned (compute_holdings gw tx_df) = Inr tbl \<and>
           (\<exists>p\<in>set tbl. pos_key p = k) \<and>
           (\<forall>p\<in>set tbl. pos_key p = k \<longrightarrow>
              pos_units p = 0 \<and> pos_avg_cost p = 0 \<and> pos_invested p = 0)"
proof -
  let ?df = "map normalise tx_df"
  from assms(1) have ne: "tx_df \<noteq> []" and k: "k \<in> set (group_keys ?df)"
    by (auto simp: set_group_keys)
  have kinds: "txn_type t \<noteq> ''BUY'' \<and> txn_type t \<noteq> ''SELL''"
    if "t \<in> set (group_rows ?df k)" for t
    using that assms(2) by (auto simp: group_rows_normalise)
  then have buys: "buy_rows ?df k = []"
    by (auto simp: buy_rows_def filter_empty_conv)
  have "signed_units t = 0" if "t \<in> set (group_rows ?df k)" for t
    using kinds [OF that] by (simp add: signed_units_def)
  then have "sum_list (map signed_units (group_rows ?df k)) = 0"
    by (rule sum_list_zero)
  then have n: "net_units (net_row_of ?df k) = 0" "net_invested (net_row_of ?df k) = 0"
    "net_avg_cost (net_row_of ?df k) = 0"
    by (simp_all add: net_avg_cost_of buys)
  from returned_positions [OF ne, of gw]
  obtain tbl where tbl: "returned (compute_holdings gw tx_df) = Inr tbl"
    and ex: "\<forall>k\<in>set (group_keys ?df). \<exists>p\<in>set tbl. pos_key p = k"
    and rows: "\<forall>p\<in>set tbl.
           pos_key p \<in> set (group_keys ?df) \<and>
           (\<exists>l\<in>set (prices_for gw (map fst (group_keys ?df)) (pos_symbol p)).
              p = position_of (net_row_of ?df (pos_key p)) l)"
    by (elim exE conjE)
  have "pos_units p = 0 \<and> pos_avg_cost p = 0 \<and> pos_invested p = 0"
    if "p \<in> set tbl" "pos_key p = k" for p
  proof -
    from rows that obtain l where "p = position_of (net_row_of ?df k) l"
      by auto
    then show ?thesis using n by simp
  qed
  with tbl ex k show ?thesis by blast
qed

theorem zero_impact_rows_witness:
  "(''X'', ''stock'') \<in> key_of ` normalise `
      set [ledger_row ''X'' ''stock'' ''DIV'' 5 10 1,
           ledger_row ''X'' ''stock'' ''GIFT'' 2 3 4,
           ledger_row ''aapl'' ''stock'' ''BUY'' 1 100 0] \<and>
   map txn_type (filter (\<lambda>t. key_of (normalise t) = (''X'', ''stock''))
       [ledger_row ''X'' ''stock'' ''DIV'' 5 10 1,
        ledger_row ''X'' ''stock'' ''GIFT'' 2 3 4,
        ledger_row ''aapl'' ''stock'' ''BUY'' 1 100 0]) = [''DIV'', ''GIFT''] \<and>
   (\<exists>tbl. returned (compute_holdings quotes
             [ledger_row ''X'' ''stock'' ''DIV'' 5 10 1,
              ledger_row ''X'' ''stock'' ''GIFT'' 2 3 4,
              ledger_row ''aapl'' ''stock'' ''BUY'' 1 100 0]) = Inr tbl \<and>
      (\<exists>p\<in>set tbl. pos_key p = (''X'', ''stock'')) \<and>
      (\<forall>p\<in>set tbl. pos_key p = (''X'', ''stock'') \<longrightarrow>
         pos_units p = 0 \<and> pos_avg_cost p = 0 \<and> pos_invested p = 0))"
proof -
  let ?l = "[ledger_row ''X'' ''stock'' ''DIV'' 5 10 1,
             ledger_row ''X'' ''stock'' ''GIFT'' 2 3 4,
             ledger_row ''aapl'' ''stock'' ''BUY'' 1 100 0]"
  have h1: "(''X'', ''stock'') \<in> key_of ` normalise ` set ?l"
    by (simp add: key_of_def upper_examples)
  have h2: "\<forall>t\<in>set ?l. key_of (normalise t) = (''X'', ''stock'') \<longrightarrow>
       txn_type t \<notin> {''BUY'', ''SELL'', ''SIP''}"
    by (simp add: key_of_def upper_examples)
  have h3: "map txn_type (filter (\<lambda>t. key_of (normalise t) = (''X'', ''stock'')) ?l) =
      [''DIV'', ''GIFT'']"
    by (simp add: key_of_def upper_examples)
  from zero_impact_rows [OF h1 h2, of quotes] h1 h3 show ?thesis
    by blast
qed

end
